theory Spec2Isabelle
  imports Main
begin

section \<open>JavaScript values\<close>

text \<open>
  The raw payload of \<^verbatim>\<open>normaliseResponse(raw: any)\<close> is an arbitrary JavaScript value.
  Objects are kept as their list of own data properties in insertion order; a key is
  looked up with \<open>map_of\<close>. Numbers are never inspected by the code under study, so the
  carrier of numbers is the type parameter \<open>'n\<close>.
\<close>

datatype 'n jsval =
    JUndefined
  | JNull
  | JBool bool
  | JNum 'n
  | JStr string
  | JArr "'n jsval list"
  | JObj "(string \<times> 'n jsval) list"

datatype js_error = TypeError

text \<open>\<^verbatim>\<open>v == null\<close>: the two values on which a member access throws and on which \<^verbatim>\<open>??\<close>
  takes its right operand.\<close>

fun nullish :: "'n jsval \<Rightarrow> bool" where
  "nullish JUndefined = True"
| "nullish JNull = True"
| "nullish _ = False"

text \<open>
  The value of a property read on a value that is neither null nor undefined. The names
  read by the code (\<^verbatim>\<open>request_id\<close>, \<^verbatim>\<open>intent_result\<close>, \<^verbatim>\<open>name\<close>, \<^verbatim>\<open>message\<close>, ...) are not
  properties of the Boolean, Number, String or Array prototypes, so on a primitive or an
  array the read gives \<^verbatim>\<open>undefined\<close>.
\<close>

fun get_prop :: "'n jsval \<Rightarrow> string \<Rightarrow> 'n jsval" where
  "get_prop (JObj fs) k = (case map_of fs k of None \<Rightarrow> JUndefined | Some v \<Rightarrow> v)"
| "get_prop _ k = JUndefined"

text \<open>\<^verbatim>\<open>v.k\<close>: throws a TypeError on null and undefined.\<close>

definition member :: "'n jsval \<Rightarrow> string \<Rightarrow> js_error + 'n jsval" where
  "member v k = (if nullish v then Inl TypeError else Inr (get_prop v k))"

text \<open>\<^verbatim>\<open>v?.k\<close>: undefined when \<^verbatim>\<open>v\<close> is null or undefined, the member access otherwise.\<close>

definition opt_member :: "'n jsval \<Rightarrow> string \<Rightarrow> js_error + 'n jsval" where
  "opt_member v k = (if nullish v then Inr JUndefined else member v k)"

text \<open>\<^verbatim>\<open>a ?? b\<close> on two expressions that may throw: \<^verbatim>\<open>b\<close> is evaluated only when \<^verbatim>\<open>a\<close>
  is null or undefined.\<close>

fun coalesce :: "js_error + 'n jsval \<Rightarrow> js_error + 'n jsval \<Rightarrow> js_error + 'n jsval" where
  "coalesce (Inl e) b = Inl e"
| "coalesce (Inr v) b = (if nullish v then b else Inr v)"

text \<open>An object literal \<^verbatim>\<open>{ k1: e1, ..., kn: en }\<close>: the property values are evaluated in
  order, and the first one that throws ends the evaluation.\<close>

fun object_fields :: "(string \<times> (js_error + 'n jsval)) list \<Rightarrow> js_error + (string \<times> 'n jsval) list" where
  "object_fields [] = Inr []"
| "object_fields ((k, Inl e) # rest) = Inl e"
| "object_fields ((k, Inr v) # rest) =
     (case object_fields rest of Inl e \<Rightarrow> Inl e | Inr fs \<Rightarrow> Inr ((k, v) # fs))"

definition object_literal :: "(string \<times> (js_error + 'n jsval)) list \<Rightarrow> js_error + 'n jsval" where
  "object_literal es = (case object_fields es of Inl e \<Rightarrow> Inl e | Inr fs \<Rightarrow> Inr (JObj fs))"

section \<open>normaliseResponse\<close>

definition normaliseResponse :: "'n jsval \<Rightarrow> js_error + 'n jsval" where
  "normaliseResponse raw =
     (case coalesce (opt_member raw ''execution_log'') (Inr JNull) of
        Inl e \<Rightarrow> Inl e
      | Inr executionLog \<Rightarrow>
          object_literal
            [(''request_id'', coalesce (opt_member raw ''request_id'') (Inr JNull)),
             (''intent_result'',
                coalesce (coalesce (opt_member raw ''intent_result'')
                                   (opt_member raw ''intent_classification'')) (Inr JNull)),
             (''planning_result'',
                coalesce (coalesce (opt_member raw ''planning_result'')
                                   (opt_member raw ''engineering_plan'')) (Inr JNull)),
             (''test_result'',
                coalesce (coalesce (opt_member raw ''test_result'')
                                   (opt_member raw ''test_results'')) (Inr JNull)),
             (''debug_result'',
                coalesce (coalesce (opt_member raw ''debug_result'')
                                   (opt_member raw ''debug_analysis'')) (Inr JNull)),
             (''generated_code'', coalesce (opt_member raw ''generated_code'') (Inr JNull)),
             (''execution_log'', Inr executionLog)])"

text \<open>The keys of the type \<^verbatim>\<open>CodePilotResponse\<close>, in the order of the literal that
  \<^verbatim>\<open>normaliseResponse\<close> returns.\<close>

definition response_keys :: "string list" where
  "response_keys =
     [''request_id'', ''intent_result'', ''planning_result'', ''test_result'',
      ''debug_result'', ''generated_code'', ''execution_log'']"

text \<open>A canonical response: an object with exactly the keys of \<^verbatim>\<open>CodePilotResponse\<close>, every
  one of them present with a value other than \<^verbatim>\<open>undefined\<close>.\<close>

definition is_canonical :: "'n jsval \<Rightarrow> bool" where
  "is_canonical v =
     (case v of
        JObj fs \<Rightarrow> map fst fs = response_keys \<and> JUndefined \<notin> set (map snd fs)
      | _ \<Rightarrow> False)"

section \<open>Errors and thrown values\<close>

text \<open>\<^verbatim>\<open>new CodePilotError(message, status)\<close>: the message and the optional numeric status.\<close>

datatype CodePilotError = CodePilotError string "nat option"

fun error_message :: "CodePilotError \<Rightarrow> string" where
  "error_message (CodePilotError m s) = m"

fun error_status :: "CodePilotError \<Rightarrow> nat option" where
  "error_status (CodePilotError m s) = s"

text \<open>
  What a \<^verbatim>\<open>catch\<close> clause can receive, and what an abort reason can be: any JavaScript
  value (a string, or an exception object with its \<^verbatim>\<open>name\<close> and \<^verbatim>\<open>message\<close>), a native
  error raised by the language itself, or an instance of the class \<^verbatim>\<open>CodePilotError\<close>.
\<close>

datatype 'n exn =
    Value "'n jsval"
  | Native js_error
  | Instance CodePilotError

text \<open>
  The \<^verbatim>\<open>catch\<close> clause of \<^verbatim>\<open>runCodePilot\<close>, with the error it throws in turn.
  A native TypeError has the name \<^verbatim>\<open>TypeError\<close> and an instance of \<^verbatim>\<open>CodePilotError\<close> the name
  \<^verbatim>\<open>CodePilotError\<close>, so the first test fails on both.
\<close>

definition aborted_message :: string where
  "aborted_message = ''Request aborted or timed out''"

definition network_message :: string where
  "network_message = ''Network error while calling CodePilot. Please try again.''"

fun catch_clause :: "'n exn \<Rightarrow> CodePilotError" where
  "catch_clause (Value error) =
     (if opt_member error ''name'' = Inr (JStr ''AbortError'')
      then CodePilotError
             (case opt_member error ''message'' of
                Inr (JStr m) \<Rightarrow> m
              | _ \<Rightarrow> aborted_message) None
      else CodePilotError network_message None)"
| "catch_clause (Native e) = CodePilotError network_message None"
| "catch_clause (Instance e) = e"

section \<open>The platform: abort signals and fetch\<close>

text \<open>
  \<^verbatim>\<open>AbortController\<close>, \<^verbatim>\<open>AbortSignal\<close> and \<^verbatim>\<open>fetch\<close> belong to the runtime. Two behaviours
  of an aborted \<^verbatim>\<open>fetch\<close> exist: the DOM and Fetch standards reject the pending promise
  with the signal's abort reason (\<open>reason_propagates\<close>), runtimes older than abort reasons
  reject it with a fresh \<^verbatim>\<open>DOMException\<close> named \<^verbatim>\<open>AbortError\<close>. The message of a
  \<^verbatim>\<open>DOMException\<close> that the runtime creates is the runtime's own (\<open>abort_text\<close>).
\<close>

record platform =
  reason_propagates :: bool
  abort_text :: string

definition abort_error :: "platform \<Rightarrow> 'n exn" where
  "abort_error pf = Value (JObj [(''name'', JStr ''AbortError''), (''message'', JStr (abort_text pf))])"

record 'n AbortSignal =
  aborted :: bool
  reason :: "'n exn"

text \<open>\<^verbatim>\<open>abort(reason)\<close> on a signal: no effect on an aborted signal; an undefined reason
  becomes the runtime's AbortError.\<close>

definition signal_abort :: "platform \<Rightarrow> 'n exn \<Rightarrow> 'n AbortSignal \<Rightarrow> 'n AbortSignal" where
  "signal_abort pf r s =
     (if aborted s then s
      else \<lparr>aborted = True, reason = (if r = Value JUndefined then abort_error pf else r)\<rparr>)"

text \<open>What a \<^verbatim>\<open>fetch\<close> (or the reading of its body) rejects with once its signal is aborted.\<close>

definition abort_rejection :: "platform \<Rightarrow> 'n AbortSignal \<Rightarrow> 'n exn" where
  "abort_rejection pf s = (if reason_propagates pf then reason s else abort_error pf)"

record Response =
  status :: nat
  statusText :: string

text \<open>\<^verbatim>\<open>res.ok\<close>: the status is in the range 200 to 299.\<close>

definition ok :: "Response \<Rightarrow> bool" where
  "ok res = (200 \<le> status res \<and> status res \<le> 299)"

text \<open>The decimal digits of a status, as a template literal prints a number.\<close>

fun show_nat :: "nat \<Rightarrow> string" where
  "show_nat n =
     (if n < 10 then [char_of (48 + n)]
      else show_nat (n div 10) @ [char_of (48 + n mod 10)])"

declare show_nat.simps [simp del]

section \<open>mergeAbortSignals\<close>

text \<open>
  The new controller's signal, and the number of listeners the function leaves attached to
  the caller's signal. The function returns the controller only: nothing it returns lets
  the listener be removed.
\<close>

definition mergeAbortSignals :: "platform \<Rightarrow> 'n AbortSignal option \<Rightarrow> 'n AbortSignal \<times> nat" where
  "mergeAbortSignals pf parent =
     (let controller = \<lparr>aborted = False, reason = Value JUndefined\<rparr> in
      case parent of
        None \<Rightarrow> (controller, 0)
      | Some p \<Rightarrow>
          if aborted p then (signal_abort pf (reason p) controller, 0)
          else (controller, 1))"

section \<open>runCodePilot\<close>

record 'n RunCodePilotOptions =
  problem :: string
  userId :: "string option"
  timeoutMs :: "nat option"
  signal :: "'n AbortSignal option"

text \<open>
  A call is suspended at \<^verbatim>\<open>await fetch(...)\<close>, then at \<^verbatim>\<open>await res.json()\<close>, and then it
  has returned a response or thrown a \<^verbatim>\<open>CodePilotError\<close>.
\<close>

datatype 'n phase =
    AwaitFetch
  | AwaitBody
  | Returned "CodePilotError + 'n jsval"

text \<open>
  The state of one call: the caller's signal, the listeners of this call that are attached
  to it, the controller's signal, the pending timer with its delay, the number of network
  exchanges begun, and where the call stands.
\<close>

record 'n call =
  parent :: "'n AbortSignal option"
  listeners :: nat
  controller :: "'n AbortSignal"
  timeout :: "nat option"
  exchanges :: nat
  phase :: "'n phase"

text \<open>The two ways out of the \<^verbatim>\<open>try\<close> block; \<^verbatim>\<open>finally\<close> clears the timer on both.\<close>

definition rejected :: "'n exn \<Rightarrow> 'n call \<Rightarrow> 'n call" where
  "rejected e st = st\<lparr>timeout := None, phase := Returned (Inl (catch_clause e))\<rparr>"

definition resolved :: "'n jsval \<Rightarrow> 'n call \<Rightarrow> 'n call" where
  "resolved v st = st\<lparr>timeout := None, phase := Returned (Inr v)\<rparr>"

text \<open>The synchronous part of the call, up to the first suspension: \<^verbatim>\<open>fetch\<close> on an
  aborted signal rejects at once and begins no exchange.\<close>

definition start :: "platform \<Rightarrow> 'n RunCodePilotOptions \<Rightarrow> 'n call" where
  "start pf opts =
     (let (c, ls) = mergeAbortSignals pf (signal opts);
          st = \<lparr>parent = signal opts, listeners = ls, controller = c,
                timeout = Some (case timeoutMs opts of None \<Rightarrow> 60000 | Some t \<Rightarrow> t),
                exchanges = 0, phase = AwaitFetch\<rparr>
      in if aborted c then rejected (abort_rejection pf c) st
         else st\<lparr>exchanges := 1\<rparr>)"

text \<open>\<^verbatim>\<open>controller.abort(r)\<close>: a suspended call is resumed with the rejection.\<close>

definition controller_abort :: "platform \<Rightarrow> 'n exn \<Rightarrow> 'n call \<Rightarrow> 'n call" where
  "controller_abort pf r st =
     (if aborted (controller st) then st
      else
        let st' = st\<lparr>controller := signal_abort pf r (controller st)\<rparr> in
        case phase st' of
          Returned x \<Rightarrow> st'
        | _ \<Rightarrow> rejected (abort_rejection pf (controller st')) st')"

text \<open>
  What the environment can do while the call exists: the caller aborts its signal, the
  timer fires, \<^verbatim>\<open>fetch\<close> settles (a rejection or a response), the body settles (a
  rejection or the parsed JSON). An event that cannot happen in the state (a cleared timer
  firing, a second abort of the caller's signal) leaves it unchanged. Clock time is not
  kept: a list of events gives the order in which they happen, and the timer fires when
  the environment says so. Each event runs to the end with the continuation of the call
  that it resumes, as the \<^verbatim>\<open>catch\<close> and \<^verbatim>\<open>finally\<close> clauses run before the next task.
\<close>

datatype 'n event =
    CallerAborts "'n exn"
  | TimerFires
  | FetchSettles "'n exn + Response"
  | BodySettles "'n exn + 'n jsval"

fun step :: "platform \<Rightarrow> 'n call \<Rightarrow> 'n event \<Rightarrow> 'n call" where
  "step pf st (CallerAborts r) =
     (case parent st of
        None \<Rightarrow> st
      | Some p \<Rightarrow>
          if aborted p then st
          else
            let p' = signal_abort pf r p; st' = st\<lparr>parent := Some p'\<rparr> in
            if listeners st' = 0 then st'
            else controller_abort pf (reason p') (st'\<lparr>listeners := 0\<rparr>))"
| "step pf st TimerFires =
     (case timeout st of
        None \<Rightarrow> st
      | Some d \<Rightarrow> controller_abort pf (Value (JStr ''Request timed out'')) (st\<lparr>timeout := None\<rparr>))"
| "step pf st (FetchSettles x) =
     (case phase st of
        AwaitFetch \<Rightarrow>
          (case x of
             Inl e \<Rightarrow> rejected e st
           | Inr res \<Rightarrow>
               if \<not> ok res
               then rejected
                      (Instance (CodePilotError
                         (''Backend error: '' @ show_nat (status res) @ '' '' @ statusText res)
                         (Some (status res)))) st
               else st\<lparr>phase := AwaitBody\<rparr>)
      | _ \<Rightarrow> st)"
| "step pf st (BodySettles x) =
     (case phase st of
        AwaitBody \<Rightarrow>
          (case x of
             Inl e \<Rightarrow> rejected e st
           | Inr raw \<Rightarrow>
               (case normaliseResponse raw of
                  Inl e \<Rightarrow> rejected (Native e) st
                | Inr v \<Rightarrow> resolved v st))
      | _ \<Rightarrow> st)"

text \<open>The call under a sequence of events of its environment, and what it has returned.\<close>

definition runCodePilot :: "platform \<Rightarrow> 'n RunCodePilotOptions \<Rightarrow> 'n event list \<Rightarrow> 'n call" where
  "runCodePilot pf opts evs = foldl (step pf) (start pf opts) evs"

definition outcome :: "'n call \<Rightarrow> (CodePilotError + 'n jsval) option" where
  "outcome st = (case phase st of Returned x \<Rightarrow> Some x | _ \<Rightarrow> None)"

section \<open>runCodePilotStream\<close>

record 'n CodePilotStreamHandlers =
  onPartialUpdate :: "('n jsval \<Rightarrow> unit) option"
  onComplete :: "('n jsval \<Rightarrow> unit) option"

text \<open>The result of the call and the number of network exchanges begun, given the number
  before the call.\<close>

definition runCodePilotStream ::
  "'n RunCodePilotOptions \<Rightarrow> 'n CodePilotStreamHandlers \<Rightarrow> nat \<Rightarrow> (CodePilotError + unit) \<times> nat" where
  "runCodePilotStream options handlers n =
     (Inl (CodePilotError ''Streaming API is not enabled yet.'' None), n)"

section \<open>The runtimes\<close>

definition standard :: platform where
  "standard = \<lparr>reason_propagates = True, abort_text = ''This operation was aborted''\<rparr>"

definition legacy :: platform where
  "legacy = \<lparr>reason_propagates = False, abort_text = ''The user aborted a request.''\<rparr>"

section \<open>Auxiliary definitions\<close>

text \<open>\<^verbatim>\<open>v ?? null\<close> on a value.\<close>

definition or_null :: "'n jsval \<Rightarrow> 'n jsval" where
  "or_null v = (if nullish v then JNull else v)"

text \<open>
  The precedence in the words of the specification: the primary key first, then its
  legacy alias, else null. A key counts when its value is neither null nor undefined.
\<close>

definition spec_resolve :: "'n jsval \<Rightarrow> string \<Rightarrow> string \<Rightarrow> 'n jsval" where
  "spec_resolve raw primary alias =
     (if \<not> nullish (get_prop raw primary) then get_prop raw primary
      else if \<not> nullish (get_prop raw alias) then get_prop raw alias
      else JNull)"

text \<open>The listeners that a call keeps on the caller's signal: one as long as the signal was
  supplied and is not aborted.\<close>

definition attached :: "'n AbortSignal option \<Rightarrow> nat" where
  "attached p = (case p of None \<Rightarrow> 0 | Some s \<Rightarrow> if aborted s then 0 else 1)"

text \<open>The invariant of a call: a call that has returned has no pending timer, and its
  listener is attached exactly as \<open>attached\<close> says.\<close>

definition call_inv :: "'n call \<Rightarrow> bool" where
  "call_inv st =
     ((case phase st of Returned x \<Rightarrow> timeout st = None | _ \<Rightarrow> True) \<and>
      listeners st = attached (parent st))"

text \<open>The options and the events of the examples.\<close>

definition plain_options :: "'n RunCodePilotOptions" where
  "plain_options = \<lparr>problem = ''two sum'', userId = None, timeoutMs = None, signal = None\<rparr>"

definition live_signal :: "'n AbortSignal" where
  "live_signal = \<lparr>aborted = False, reason = Value JUndefined\<rparr>"

definition ok_response :: Response where
  "ok_response = \<lparr>status = 200, statusText = ''OK''\<rparr>"

section \<open>Properties of normaliseResponse\<close>

lemma opt_member_eq: "opt_member v k = Inr (get_prop v k)"
  by (cases v) (simp_all add: opt_member_def member_def)

lemma coalesce_null: "coalesce (Inr v) (Inr JNull) = Inr (or_null v)"
  by (simp add: or_null_def)

lemma coalesce_alias:
  "coalesce (coalesce (opt_member raw p) (opt_member raw a)) (Inr JNull) =
     Inr (spec_resolve raw p a)"
  by (simp add: opt_member_eq spec_resolve_def)

lemma normaliseResponse_eq:
  "normaliseResponse raw =
     Inr (JObj
       [(''request_id'', or_null (get_prop raw ''request_id'')),
        (''intent_result'', spec_resolve raw ''intent_result'' ''intent_classification''),
        (''planning_result'', spec_resolve raw ''planning_result'' ''engineering_plan''),
        (''test_result'', spec_resolve raw ''test_result'' ''test_results''),
        (''debug_result'', spec_resolve raw ''debug_result'' ''debug_analysis''),
        (''generated_code'', or_null (get_prop raw ''generated_code'')),
        (''execution_log'', or_null (get_prop raw ''execution_log''))])"
  unfolding normaliseResponse_def coalesce_alias
  by (simp add: opt_member_eq coalesce_null object_literal_def del: coalesce.simps)

lemma or_null_defined: "or_null v \<noteq> JUndefined"
  by (cases v) (simp_all add: or_null_def)

lemma spec_resolve_defined: "spec_resolve raw p a \<noteq> JUndefined"
  by (auto simp: spec_resolve_def)

lemma or_null_id: "v \<noteq> JUndefined \<Longrightarrow> or_null v = v"
  by (cases v) (simp_all add: or_null_def)

lemma spec_resolve_id:
  "get_prop c p \<noteq> JUndefined \<Longrightarrow> get_prop c a = JUndefined \<Longrightarrow>
   spec_resolve c p a = get_prop c p"
  by (cases "get_prop c p") (simp_all add: spec_resolve_def)

lemma spec_resolve_cases:
  "spec_resolve raw p a = get_prop raw p \<or> spec_resolve raw p a = get_prop raw a \<or>
   spec_resolve raw p a = JNull"
  by (simp add: spec_resolve_def)

text \<open>
  C4. For every raw payload the normalised response is an object that has every key of
  the canonical shape, none of them with the value undefined: \<^verbatim>\<open>request_id\<close>,
  \<^verbatim>\<open>intent_result\<close>, \<^verbatim>\<open>planning_result\<close>, \<^verbatim>\<open>test_result\<close>, \<^verbatim>\<open>debug_result\<close> and
  \<^verbatim>\<open>execution_log\<close> are present with a value that is at worst null.
\<close>

theorem normaliseResponse_keys_present:
  "\<exists>fs. normaliseResponse raw = Inr (JObj fs) \<and> map fst fs = response_keys \<and>
        JUndefined \<notin> set (map snd fs) \<and>
        list_all (\<lambda>k. case map_of fs k of None \<Rightarrow> False | Some v \<Rightarrow> v \<noteq> JUndefined)
          [''request_id'', ''intent_result'', ''planning_result'', ''test_result'',
           ''debug_result'', ''execution_log'']"
  by (simp add: normaliseResponse_eq response_keys_def or_null_defined spec_resolve_defined
      or_null_defined [symmetric] spec_resolve_defined [symmetric])

text \<open>
  C2, as the code has it. The claim that \<^verbatim>\<open>execution_log\<close> and the nested sequences are
  always sequences fails: a payload without \<^verbatim>\<open>execution_log\<close> is normalised to a response
  whose \<^verbatim>\<open>execution_log\<close> is null, and a \<^verbatim>\<open>test_result\<close> without \<^verbatim>\<open>cases\<close> is handed on
  without \<^verbatim>\<open>cases\<close>.
\<close>

theorem normaliseResponse_null_log:
  "normaliseResponse (JObj [(''test_result'', JObj [])] :: int jsval) =
     Inr (JObj
       [(''request_id'', JNull), (''intent_result'', JNull), (''planning_result'', JNull),
        (''test_result'', JObj []), (''debug_result'', JNull), (''generated_code'', JNull),
        (''execution_log'', JNull)])"
  by (simp add: normaliseResponse_eq or_null_def spec_resolve_def)

text \<open>
  C2, amended. For every raw payload the normalised response has \<^verbatim>\<open>execution_log\<close>
  present: it is the raw \<^verbatim>\<open>execution_log\<close>, unchanged, when that is neither null nor
  undefined, and null otherwise. \<^verbatim>\<open>planning_result\<close>, \<^verbatim>\<open>test_result\<close> and \<^verbatim>\<open>debug_result\<close>
  are null or a value of the raw payload handed on as it is, so that
  \<^verbatim>\<open>alternative_approaches\<close>, \<^verbatim>\<open>cases\<close>, \<^verbatim>\<open>issues\<close> and \<^verbatim>\<open>suggestions\<close> are what the raw
  payload holds.
\<close>

theorem normaliseResponse_execution_log:
  "\<exists>fs. normaliseResponse raw = Inr (JObj fs) \<and>
        map_of fs ''execution_log'' =
          Some (if nullish (get_prop raw ''execution_log'') then JNull
                else get_prop raw ''execution_log'') \<and>
        map_of fs ''planning_result'' \<in>
          {Some (get_prop raw ''planning_result''), Some (get_prop raw ''engineering_plan''),
           Some JNull} \<and>
        map_of fs ''test_result'' \<in>
          {Some (get_prop raw ''test_result''), Some (get_prop raw ''test_results''),
           Some JNull} \<and>
        map_of fs ''debug_result'' \<in>
          {Some (get_prop raw ''debug_result''), Some (get_prop raw ''debug_analysis''),
           Some JNull}"
  using spec_resolve_cases [of raw "''planning_result''" "''engineering_plan''"]
    spec_resolve_cases [of raw "''test_result''" "''test_results''"]
    spec_resolve_cases [of raw "''debug_result''" "''debug_analysis''"]
  by (simp add: normaliseResponse_eq or_null_def)

text \<open>
  C7. Normalisation is idempotent: a canonical response (an object with exactly the keys
  of \<^verbatim>\<open>CodePilotResponse\<close>, none of them undefined) is normalised to itself.
\<close>

theorem normaliseResponse_idempotent:
  assumes "is_canonical c"
  shows "normaliseResponse c = Inr c"
proof -
  from assms obtain fs where fs: "c = JObj fs" "map fst fs = response_keys"
      "JUndefined \<notin> set (map snd fs)"
    by (cases c) (simp_all add: is_canonical_def)
  from fs(2) obtain v1 v2 v3 v4 v5 v6 v7 where l:
    "fs = [(''request_id'', v1), (''intent_result'', v2), (''planning_result'', v3),
           (''test_result'', v4), (''debug_result'', v5), (''generated_code'', v6),
           (''execution_log'', v7)]"
    unfolding response_keys_def by (auto simp: map_eq_Cons_conv)
  from fs(3) l have d: "v1 \<noteq> JUndefined" "v2 \<noteq> JUndefined" "v3 \<noteq> JUndefined"
      "v4 \<noteq> JUndefined" "v5 \<noteq> JUndefined" "v6 \<noteq> JUndefined" "v7 \<noteq> JUndefined"
    by auto
  show ?thesis
    unfolding normaliseResponse_eq fs(1) l by (simp add: or_null_id d spec_resolve_id)
qed

theorem normaliseResponse_idempotent_witness:
  "is_canonical (JObj
       [(''request_id'', JStr ''r1''), (''intent_result'', JNull), (''planning_result'', JNull),
        (''test_result'', JObj [(''summary'', JStr ''ok''), (''cases'', JArr [])]),
        (''debug_result'', JNull), (''generated_code'', JNull),
        (''execution_log'', JArr [])] :: int jsval) \<and>
   normaliseResponse (JObj
       [(''request_id'', JStr ''r1''), (''intent_result'', JNull), (''planning_result'', JNull),
        (''test_result'', JObj [(''summary'', JStr ''ok''), (''cases'', JArr [])]),
        (''debug_result'', JNull), (''generated_code'', JNull),
        (''execution_log'', JArr [])] :: int jsval) =
     Inr (JObj
       [(''request_id'', JStr ''r1''), (''intent_result'', JNull), (''planning_result'', JNull),
        (''test_result'', JObj [(''summary'', JStr ''ok''), (''cases'', JArr [])]),
        (''debug_result'', JNull), (''generated_code'', JNull),
        (''execution_log'', JArr [])])"
proof -
  have h: "is_canonical (JObj
       [(''request_id'', JStr ''r1''), (''intent_result'', JNull), (''planning_result'', JNull),
        (''test_result'', JObj [(''summary'', JStr ''ok''), (''cases'', JArr [])]),
        (''debug_result'', JNull), (''generated_code'', JNull),
        (''execution_log'', JArr [])] :: int jsval)"
    by (simp add: is_canonical_def response_keys_def)
  from h normaliseResponse_idempotent [OF h] show ?thesis by (rule conjI)
qed

text \<open>
  C10. Normalisation never throws: for every raw value (undefined, null, a primitive,
  an array, an object of any shape) it returns an object with the keys of the canonical
  shape. \<^verbatim>\<open>generated_code\<close> is one of them, read from the key \<^verbatim>\<open>generated_code\<close> alone, null
  when that is null or undefined.
\<close>

theorem normaliseResponse_total:
  "\<exists>fs. normaliseResponse raw = Inr (JObj fs) \<and> map fst fs = response_keys \<and>
        map_of fs ''generated_code'' =
          Some (if nullish (get_prop raw ''generated_code'') then JNull
                else get_prop raw ''generated_code'')"
  by (simp add: normaliseResponse_eq response_keys_def or_null_def)

section \<open>Properties of a call\<close>

lemmas call_defs =
  runCodePilot_def start_def mergeAbortSignals_def rejected_def resolved_def
  controller_abort_def signal_abort_def abort_rejection_def abort_error_def outcome_def
  opt_member_eq Let_def

lemmas example_defs =
  plain_options_def live_signal_def ok_response_def standard_def legacy_def ok_def
  network_message_def aborted_message_def

lemma show_nat_500: "show_nat 500 = ''500''"
  by code_simp

lemma rejected_phase: "phase (rejected e st) = Returned (Inl (catch_clause e))"
  by (simp add: rejected_def)

lemma resolved_phase: "phase (resolved v st) = Returned (Inr v)"
  by (simp add: resolved_def)

text \<open>A call that has returned keeps its result, whatever happens afterwards.\<close>

lemma controller_abort_returned:
  "phase st = Returned x \<Longrightarrow> phase (controller_abort pf r st) = Returned x"
  by (simp add: controller_abort_def Let_def)

lemma step_returned: "phase st = Returned x \<Longrightarrow> phase (step pf st ev) = Returned x"
  by (cases ev) (auto simp: controller_abort_returned Let_def split: option.splits)

lemma steps_returned:
  "phase st = Returned x \<Longrightarrow> phase (foldl (step pf) st evs) = Returned x"
  by (induction evs arbitrary: st) (simp_all add: step_returned)

text \<open>No event begins a network exchange: the only one is begun by \<open>start\<close>.\<close>

lemma controller_abort_exchanges: "exchanges (controller_abort pf r st) = exchanges st"
  by (simp add: controller_abort_def rejected_def Let_def split: phase.splits)

lemma step_exchanges: "exchanges (step pf st ev) = exchanges st"
  by (cases ev)
    (auto simp: controller_abort_exchanges rejected_def resolved_def Let_def
      split: option.splits phase.splits sum.splits)

lemma steps_exchanges: "exchanges (foldl (step pf) st evs) = exchanges st"
  by (induction evs arbitrary: st) (simp_all add: step_exchanges)

text \<open>The invariant holds when the call is suspended for the first time, and every event
  keeps it.\<close>

lemma inv_rejected: "listeners st = attached (parent st) \<Longrightarrow> call_inv (rejected e st)"
  by (simp add: call_inv_def rejected_def)

lemma inv_resolved: "listeners st = attached (parent st) \<Longrightarrow> call_inv (resolved e st)"
  by (simp add: call_inv_def resolved_def)

lemma inv_controller_abort: "call_inv st \<Longrightarrow> call_inv (controller_abort pf r st)"
  by (auto simp: call_inv_def controller_abort_def rejected_def Let_def split: phase.splits)

lemma inv_start: "call_inv (start pf opts)"
  by (auto simp: call_inv_def start_def mergeAbortSignals_def rejected_def attached_def Let_def
      signal_abort_def split: option.splits)

lemma inv_step:
  assumes i: "call_inv st"
  shows "call_inv (step pf st ev)"
proof (cases ev)
  case (CallerAborts r)
  show ?thesis
  proof (cases "parent st")
    case None
    with i CallerAborts show ?thesis by simp
  next
    case (Some p)
    show ?thesis
    proof (cases "aborted p")
      case True
      with i CallerAborts Some show ?thesis by simp
    next
      case False
      let ?st = "st\<lparr>parent := Some (signal_abort pf r p), listeners := 0\<rparr>"
      from i False have "call_inv ?st"
        by (auto simp: call_inv_def attached_def signal_abort_def split: phase.splits)
      then have "call_inv (controller_abort pf (reason (signal_abort pf r p)) ?st)"
        by (rule inv_controller_abort)
      moreover from i Some False have "listeners st = 1"
        by (simp add: call_inv_def attached_def)
      ultimately show ?thesis using CallerAborts Some False by (simp add: Let_def)
    qed
  qed
next
  case TimerFires
  show ?thesis
  proof (cases "timeout st")
    case None
    with i TimerFires show ?thesis by simp
  next
    case (Some d)
    from i have "call_inv (st\<lparr>timeout := None\<rparr>)"
      by (auto simp: call_inv_def split: phase.splits)
    then show ?thesis using TimerFires Some by (simp add: inv_controller_abort)
  qed
next
  case (FetchSettles x)
  from i have l: "listeners st = attached (parent st)" by (simp add: call_inv_def)
  show ?thesis using FetchSettles i l
    by (auto simp: inv_rejected split: phase.splits sum.splits) (simp add: call_inv_def)
next
  case (BodySettles x)
  from i have l: "listeners st = attached (parent st)" by (simp add: call_inv_def)
  show ?thesis using BodySettles i l
    by (auto simp: inv_rejected inv_resolved split: phase.splits sum.splits)
qed

lemma inv_steps: "call_inv st \<Longrightarrow> call_inv (foldl (step pf) st evs)"
  by (induction evs arbitrary: st) (simp_all add: inv_step)

lemma inv_run: "call_inv (runCodePilot pf opts evs)"
  by (simp add: runCodePilot_def inv_steps inv_start)

text \<open>The caller's signal: absent it stays absent, aborted it stays aborted.\<close>

lemma controller_abort_parent: "parent (controller_abort pf r st) = parent st"
  by (simp add: controller_abort_def rejected_def Let_def split: phase.splits)

lemma step_parent_none: "parent st = None \<Longrightarrow> parent (step pf st ev) = None"
  by (cases ev)
    (auto simp: controller_abort_parent rejected_def resolved_def
      split: option.splits phase.splits sum.splits)

lemma steps_parent_none: "parent st = None \<Longrightarrow> parent (foldl (step pf) st evs) = None"
  by (induction evs arbitrary: st) (simp_all add: step_parent_none)

lemma step_parent_aborted:
  "attached (parent st) = 0 \<Longrightarrow> attached (parent (step pf st ev)) = 0"
  by (cases ev)
    (auto simp: controller_abort_parent rejected_def resolved_def attached_def Let_def
      signal_abort_def split: option.splits phase.splits sum.splits if_splits)

lemma steps_parent_aborted:
  "attached (parent st) = 0 \<Longrightarrow> attached (parent (foldl (step pf) st evs)) = 0"
  by (induction evs arbitrary: st) (simp_all add: step_parent_aborted)

lemma parent_start: "parent (start pf opts) = signal opts"
  by (simp add: start_def rejected_def Let_def split: prod.splits)

text \<open>
  A call on a signal that is already aborted: no exchange is begun, the controller is
  aborted with the signal's reason, and the call has thrown what the \<^verbatim>\<open>catch\<close> clause
  makes of the rejection of \<^verbatim>\<open>fetch\<close>, before any event.
\<close>

lemma start_aborted:
  assumes "signal opts = Some p" "aborted p"
  shows "exchanges (start pf opts) = 0"
    and "controller (start pf opts) = signal_abort pf (reason p) \<lparr>aborted = False, reason = Value JUndefined\<rparr>"
    and "phase (start pf opts) =
           Returned (Inl (catch_clause (abort_rejection pf (controller (start pf opts)))))"
  using assms by (simp_all add: start_def mergeAbortSignals_def rejected_def signal_abort_def)

text \<open>On a runtime that rejects an aborted \<^verbatim>\<open>fetch\<close> with a fresh AbortError, such a call
  throws the cancellation failure with the runtime's text.\<close>

lemma start_aborted_legacy:
  assumes "signal opts = Some p" "aborted p" "\<not> reason_propagates pf"
  shows "outcome (runCodePilot pf opts evs) = Some (Inl (CodePilotError (abort_text pf) None))"
proof -
  from assms have "phase (start pf opts) = Returned (Inl (CodePilotError (abort_text pf) None))"
    by (simp add: start_aborted(3) abort_rejection_def abort_error_def opt_member_eq)
  then show ?thesis
    by (simp add: runCodePilot_def outcome_def steps_returned)
qed

text \<open>On a runtime that rejects with the reason, the timer that fires on a suspended call
  makes it throw the network failure: the reason is a string and has no \<^verbatim>\<open>name\<close>.\<close>

lemma timer_fires_standard:
  assumes "phase st = AwaitFetch \<or> phase st = AwaitBody" "timeout st = Some d"
    "\<not> aborted (controller st)" "reason_propagates pf"
  shows "outcome (step pf st TimerFires) = Some (Inl (CodePilotError network_message None))"
  using assms
  by (auto simp: controller_abort_def signal_abort_def abort_rejection_def rejected_def
      outcome_def opt_member_eq Let_def)

text \<open>
  C1, at the failing input. A call without a signal and with \<^verbatim>\<open>timeoutMs\<close> 10, whose
  transport never settles: the timer fires. Where \<^verbatim>\<open>fetch\<close> rejects with the abort
  reason, the rejection is the string \<^verbatim>\<open>"Request timed out"\<close>, which has no \<^verbatim>\<open>name\<close>, and
  the call throws the network failure. Where \<^verbatim>\<open>fetch\<close> rejects with a fresh AbortError, the
  call throws the runtime's own text. Neither message holds the reason.
\<close>

theorem runCodePilot_timeout_message:
  "outcome (runCodePilot standard (plain_options\<lparr>timeoutMs := Some 10\<rparr>) [TimerFires]) =
     Some (Inl (CodePilotError
       ''Network error while calling CodePilot. Please try again.'' None)) \<and>
   outcome (runCodePilot legacy (plain_options\<lparr>timeoutMs := Some 10\<rparr>) [TimerFires]) =
     Some (Inl (CodePilotError ''The user aborted a request.'' None))"
  by (simp add: call_defs example_defs)

text \<open>
  C3, as the code has it. A caller's signal that is never aborted, and a call that succeeds:
  the call has returned its response and its listener is still attached to the signal.
\<close>

theorem runCodePilot_listener_left:
  "outcome (runCodePilot standard (plain_options\<lparr>signal := Some live_signal\<rparr>)
      [FetchSettles (Inr ok_response), BodySettles (Inr (JObj []))]) =
     Some (Inr (JObj
       [(''request_id'', JNull), (''intent_result'', JNull), (''planning_result'', JNull),
        (''test_result'', JNull), (''debug_result'', JNull), (''generated_code'', JNull),
        (''execution_log'', JNull)] :: int jsval)) \<and>
   listeners (runCodePilot standard (plain_options\<lparr>signal := Some live_signal\<rparr>)
      [FetchSettles (Inr ok_response), BodySettles (Inr (JObj [] :: int jsval))]) = 1"
  by (simp add: call_defs example_defs normaliseResponse_eq or_null_def spec_resolve_def)

text \<open>
  C3, amended. On every exit path the timer has been cleared when the call has returned.
  The listener on the caller's signal is not released by the call: it is attached exactly
  as long as a signal was supplied and is not aborted, so none is attached when no signal
  was supplied or the signal was aborted at the call, and one that was attached goes only
  when the caller aborts.
\<close>

theorem runCodePilot_cleanup:
  "(outcome (runCodePilot pf opts evs) \<noteq> None \<longrightarrow> timeout (runCodePilot pf opts evs) = None) \<and>
   listeners (runCodePilot pf opts evs) =
     (case parent (runCodePilot pf opts evs) of
        None \<Rightarrow> 0
      | Some s \<Rightarrow> if aborted s then 0 else 1) \<and>
   (signal opts = None \<longrightarrow> listeners (runCodePilot pf opts evs) = 0) \<and>
   (\<forall>p. signal opts = Some p \<and> aborted p \<longrightarrow> listeners (runCodePilot pf opts evs) = 0)"
proof -
  let ?st = "runCodePilot pf opts evs"
  have i: "call_inv ?st" by (rule inv_run)
  then have l: "listeners ?st = attached (parent ?st)" by (simp add: call_inv_def)
  from i have "outcome ?st \<noteq> None \<longrightarrow> timeout ?st = None"
    by (auto simp: call_inv_def outcome_def split: phase.splits)
  moreover from l have "listeners ?st = (case parent ?st of None \<Rightarrow> 0 | Some s \<Rightarrow> if aborted s then 0 else 1)"
    by (simp add: attached_def)
  moreover have "signal opts = None \<longrightarrow> listeners ?st = 0"
  proof
    assume "signal opts = None"
    then have "parent ?st = None"
      by (simp add: runCodePilot_def steps_parent_none parent_start)
    with l show "listeners ?st = 0" by (simp add: attached_def)
  qed
  moreover have "\<forall>p. signal opts = Some p \<and> aborted p \<longrightarrow> listeners ?st = 0"
  proof (intro allI impI)
    fix p assume "signal opts = Some p \<and> aborted p"
    then have "attached (parent (start pf opts)) = 0"
      by (simp add: parent_start attached_def)
    then have "attached (parent ?st) = 0"
      unfolding runCodePilot_def by (rule steps_parent_aborted)
    with l show "listeners ?st = 0" by simp
  qed
  ultimately show ?thesis by blast
qed

theorem runCodePilot_cleanup_witness:
  "outcome (runCodePilot standard (plain_options\<lparr>signal := Some live_signal\<rparr>)
      [CallerAborts (Value JUndefined :: int exn)]) =
     Some (Inl (CodePilotError ''This operation was aborted'' None)) \<and>
   timeout (runCodePilot standard (plain_options\<lparr>signal := Some live_signal\<rparr>)
      [CallerAborts (Value JUndefined :: int exn)]) = None \<and>
   listeners (runCodePilot standard (plain_options\<lparr>signal := Some live_signal\<rparr>)
      [CallerAborts (Value JUndefined :: int exn)]) = 0"
proof -
  let ?st = "runCodePilot standard (plain_options\<lparr>signal := Some live_signal\<rparr>)
      [CallerAborts (Value JUndefined :: int exn)]"
  have o: "outcome ?st = Some (Inl (CodePilotError ''This operation was aborted'' None))"
    by (simp add: call_defs example_defs)
  have p: "parent ?st = Some \<lparr>aborted = True, reason = abort_error standard\<rparr>"
    by (simp add: call_defs example_defs)
  from o have "outcome ?st \<noteq> None" by simp
  with runCodePilot_cleanup [of standard "plain_options\<lparr>signal := Some live_signal\<rparr>"
      "[CallerAborts (Value JUndefined :: int exn)]"] p
  have "timeout ?st = None" "listeners ?st = 0" by simp_all
  with o show ?thesis by simp
qed

text \<open>
  C5, at the failing input. A signal aborted with the reason \<^verbatim>\<open>"user cancelled"\<close> before
  the call: no exchange is begun and the controller is aborted with the same reason, but
  the rejection of \<^verbatim>\<open>fetch\<close> is that string, and the call throws the network failure.
\<close>

theorem runCodePilot_aborted_before:
  "exchanges (runCodePilot standard
      (plain_options\<lparr>signal := Some \<lparr>aborted = True, reason = Value (JStr ''user cancelled'')\<rparr>\<rparr>)
      ([] :: int event list)) = 0 \<and>
   controller (runCodePilot standard
      (plain_options\<lparr>signal := Some \<lparr>aborted = True, reason = Value (JStr ''user cancelled'')\<rparr>\<rparr>)
      ([] :: int event list)) =
     \<lparr>aborted = True, reason = Value (JStr ''user cancelled'')\<rparr> \<and>
   outcome (runCodePilot standard
      (plain_options\<lparr>signal := Some \<lparr>aborted = True, reason = Value (JStr ''user cancelled'')\<rparr>\<rparr>)
      ([] :: int event list)) =
     Some (Inl (CodePilotError
       ''Network error while calling CodePilot. Please try again.'' None))"
  by (simp add: call_defs example_defs)

text \<open>
  C6. Each of \<^verbatim>\<open>intent_result\<close>, \<^verbatim>\<open>planning_result\<close>, \<^verbatim>\<open>test_result\<close> and \<^verbatim>\<open>debug_result\<close>
  is the value of its primary key, else the value of its legacy alias
  (\<^verbatim>\<open>intent_classification\<close>, \<^verbatim>\<open>engineering_plan\<close>, \<^verbatim>\<open>test_results\<close>, \<^verbatim>\<open>debug_analysis\<close>), else
  null. A call whose exchange ends with status 200 and the body
  \<^verbatim>\<open>{"request_id":"r1","test_results":{"summary":"ok","cases":[]}}\<close> returns a response
  whose \<^verbatim>\<open>test_result\<close> has the summary \<^verbatim>\<open>"ok"\<close> and an empty sequence of cases.
\<close>

theorem normaliseResponse_precedence:
  "(\<exists>fs. normaliseResponse raw = Inr (JObj fs) \<and>
      map_of fs ''intent_result'' =
        Some (spec_resolve raw ''intent_result'' ''intent_classification'') \<and>
      map_of fs ''planning_result'' =
        Some (spec_resolve raw ''planning_result'' ''engineering_plan'') \<and>
      map_of fs ''test_result'' = Some (spec_resolve raw ''test_result'' ''test_results'') \<and>
      map_of fs ''debug_result'' = Some (spec_resolve raw ''debug_result'' ''debug_analysis'')) \<and>
   outcome (runCodePilot pf \<lparr>problem = p, userId = u, timeoutMs = t, signal = None\<rparr>
      [FetchSettles (Inr \<lparr>status = 200, statusText = txt\<rparr>),
       BodySettles (Inr (JObj
         [(''request_id'', JStr ''r1''),
          (''test_results'', JObj [(''summary'', JStr ''ok''), (''cases'', JArr [])])]))]) =
     Some (Inr (JObj
       [(''request_id'', JStr ''r1''), (''intent_result'', JNull), (''planning_result'', JNull),
        (''test_result'', JObj [(''summary'', JStr ''ok''), (''cases'', JArr [])]),
        (''debug_result'', JNull), (''generated_code'', JNull),
        (''execution_log'', JNull)]))"
proof
  show "\<exists>fs. normaliseResponse raw = Inr (JObj fs) \<and>
      map_of fs ''intent_result'' =
        Some (spec_resolve raw ''intent_result'' ''intent_classification'') \<and>
      map_of fs ''planning_result'' =
        Some (spec_resolve raw ''planning_result'' ''engineering_plan'') \<and>
      map_of fs ''test_result'' = Some (spec_resolve raw ''test_result'' ''test_results'') \<and>
      map_of fs ''debug_result'' = Some (spec_resolve raw ''debug_result'' ''debug_analysis'')"
    by (simp add: normaliseResponse_eq)
next
  show "outcome (runCodePilot pf \<lparr>problem = p, userId = u, timeoutMs = t, signal = None\<rparr>
      [FetchSettles (Inr \<lparr>status = 200, statusText = txt\<rparr>),
       BodySettles (Inr (JObj
         [(''request_id'', JStr ''r1''),
          (''test_results'', JObj [(''summary'', JStr ''ok''), (''cases'', JArr [])])]))]) =
     Some (Inr (JObj
       [(''request_id'', JStr ''r1''), (''intent_result'', JNull), (''planning_result'', JNull),
        (''test_result'', JObj [(''summary'', JStr ''ok''), (''cases'', JArr [])]),
        (''debug_result'', JNull), (''generated_code'', JNull),
        (''execution_log'', JNull)]))"
    by (simp add: call_defs ok_def normaliseResponse_eq or_null_def spec_resolve_def)
qed

text \<open>
  C8. A response that arrives while the call awaits \<^verbatim>\<open>fetch\<close>, with a status outside 200
  to 299: the call throws a \<^verbatim>\<open>CodePilotError\<close> that carries the status as a number and
  whose message holds the status and the status text, whatever happens afterwards.
\<close>

theorem runCodePilot_http_error:
  assumes "phase (runCodePilot pf opts pre) = AwaitFetch" and "\<not> ok res"
  shows "outcome (runCodePilot pf opts (pre @ FetchSettles (Inr res) # post)) =
     Some (Inl (CodePilotError
       (''Backend error: '' @ show_nat (status res) @ '' '' @ statusText res)
       (Some (status res))))"
proof -
  let ?e = "CodePilotError
       (''Backend error: '' @ show_nat (status res) @ '' '' @ statusText res)
       (Some (status res))"
  from assms have "phase (step pf (runCodePilot pf opts pre) (FetchSettles (Inr res))) =
      Returned (Inl ?e)"
    by (simp add: rejected_phase)
  then have "phase (runCodePilot pf opts (pre @ FetchSettles (Inr res) # post)) = Returned (Inl ?e)"
    by (simp add: runCodePilot_def steps_returned)
  then show ?thesis by (simp add: outcome_def)
qed

theorem runCodePilot_http_error_witness:
  "phase (runCodePilot standard plain_options ([] :: int event list)) = AwaitFetch \<and>
   \<not> ok \<lparr>status = 500, statusText = ''Internal Server Error''\<rparr> \<and>
   outcome (runCodePilot standard plain_options
      [FetchSettles (Inr \<lparr>status = 500, statusText = ''Internal Server Error''\<rparr>),
       BodySettles (Inr (JObj [] :: int jsval))]) =
     Some (Inl (CodePilotError ''Backend error: 500 Internal Server Error'' (Some 500)))"
proof -
  have a: "phase (runCodePilot standard plain_options ([] :: int event list)) = AwaitFetch"
    by (simp add: call_defs example_defs)
  have b: "\<not> ok \<lparr>status = 500, statusText = ''Internal Server Error''\<rparr>"
    by (simp add: ok_def)
  from runCodePilot_http_error [OF a b, of "[BodySettles (Inr (JObj []))]"] a b
  show ?thesis by (simp add: show_nat_500)
qed

text \<open>
  C9. The streaming operation throws the same \<^verbatim>\<open>CodePilotError\<close>, "Streaming API is not
  enabled yet.", on every input and begins no network exchange.
\<close>

theorem runCodePilotStream_unavailable:
  "fst (runCodePilotStream options handlers n) =
     Inl (CodePilotError ''Streaming API is not enabled yet.'' None) \<and>
   snd (runCodePilotStream options handlers n) = n"
  by (simp add: runCodePilotStream_def)

end
